theory Spec2Isabelle
  imports Main "HOL-Library.Word"
begin

unbundle bit_operations_syntax

section \<open>The PCF8575 driver (devices/pcf8575/pcf8575.go)\<close>

text \<open>
  The driver keeps two latch bytes and talks to the chip through one primitive,
  \<open>Tx(w, r)\<close>, of a connection bound to a bus and an address. Every method of the
  source is a function that takes the handle and returns the values the Go method
  returns together with the handle afterwards; the handle carries the bus it refers to,
  and the bus carries the list of the transactions issued on it so far.

  Go's \<open>int\<close> is modelled by \<open>int\<close>: the source only compares the index with
  constants, subtracts 8 from an index known to lie in 8..15 and truncates it to a
  byte, so no operation on it can overflow at any machine width. Go's \<open>byte\<close> is
  \<open>8 word\<close>.
\<close>

type_synonym byte = "8 word"

subsection \<open>The bus\<close>

datatype bus_error = BusFailure string

record transaction =
  taddr :: "16 word"
  written :: "byte list"
  rlen :: nat

type_synonym bus_log = "(transaction \<times> bus_error option) list"

text \<open>
  Modelled from the spec: the bus transaction primitive of package \<open>conn/i2c\<close>, which
  is not among the sources. Section 6 of the specification describes it as
  \<open>Tx(writeBytes, readBuffer) \<rightarrow> Error\<close>, bound to a fixed device address, where either
  argument may be empty. A bus is given by how it answers a transaction after a given
  history (\<open>respond\<close>: an error or none, and the bytes it delivers) and by the history
  itself (\<open>issued\<close>: every transaction with its outcome, oldest first). The read buffer
  keeps its length: the bus overwrites at most \<open>length r\<close> bytes of it.
\<close>

record i2c_Bus =
  respond :: "bus_log \<Rightarrow> transaction \<Rightarrow> bus_error option \<times> byte list"
  issued :: bus_log

definition Bus_Tx ::
  "i2c_Bus \<Rightarrow> 16 word \<Rightarrow> byte list \<Rightarrow> byte list \<Rightarrow> bus_error option \<times> byte list \<times> i2c_Bus" where
  "Bus_Tx b a w r =
     (let t = \<lparr>taddr = a, written = w, rlen = length r\<rparr>;
          (e, data) = respond b (issued b) t
      in (e, take (length r) data @ drop (length data) r,
          b\<lparr>issued := issued b @ [(t, e)]\<rparr>))"

text \<open>
  Modelled from the spec: \<open>i2c.Dev\<close>, the connection \<open>&i2c.Dev{Bus: i, Addr: addr}\<close>
  that \<open>New\<close> builds; its \<open>Tx\<close> is the bus transaction at the bound address.
\<close>

record i2c_Dev =
  Bus :: i2c_Bus
  Addr :: "16 word"

definition Tx ::
  "i2c_Dev \<Rightarrow> byte list \<Rightarrow> byte list \<Rightarrow> bus_error option \<times> byte list \<times> i2c_Dev" where
  "Tx cn w r = (case Bus_Tx (Bus cn) (Addr cn) w r of (e, r', b') \<Rightarrow> (e, r', cn\<lparr>Bus := b'\<rparr>))"

subsection \<open>The handle and its errors\<close>

text \<open>
  The source builds its range errors with
  \<open>errors.New(fmt.Sprintf("PCF8575.<Method>: Pin index out of range (%d)", index))\<close>;
  \<open>RangeError\<close> keeps the two parts that vary, the call site and the index. An error of
  the bus is passed on as it is (\<open>BusError\<close>).
\<close>

datatype error = RangeError string int | BusError bus_error

text \<open>Field \<open>c\<close> of the source's \<open>Dev\<close> is \<open>conn\<close> here.\<close>

record Dev =
  conn :: i2c_Dev
  lowPins :: byte
  highPins :: byte

subsection \<open>Bit helpers\<close>

definition getMask :: "int \<Rightarrow> byte" where
  "getMask index = push_bit (unat (word_of_int index :: byte)) (1 :: byte)"

definition setBit :: "byte \<Rightarrow> int \<Rightarrow> bool \<Rightarrow> byte" where
  "setBit v index state = (if state then v OR getMask index else v AND NOT (getMask index))"

definition getBit :: "byte \<Rightarrow> int \<Rightarrow> bool" where
  "getBit v index = (v AND getMask index > 0)"

subsection \<open>Transactions of the driver\<close>

definition readState :: "Dev \<Rightarrow> (byte list \<times> error option) \<times> Dev" where
  "readState d =
     (case Tx (conn d) [] [0, 0] of
        (err, s, cn') \<Rightarrow> ((s, map_option BusError err), d\<lparr>conn := cn'\<rparr>))"

definition updateState :: "Dev \<Rightarrow> error option \<times> Dev" where
  "updateState d =
     (case Tx (conn d) [lowPins d, highPins d] [] of
        (err, _, cn') \<Rightarrow> (map_option BusError err, d\<lparr>conn := cn'\<rparr>))"

subsection \<open>Construction and the pin operations\<close>

text \<open>
  \<open>New\<close> returns Go's pair \<open>(*Dev, error)\<close> and the bus after the call: on failure the
  pair is \<open>(nil, err)\<close>, but the transaction has been issued on the caller's bus.
\<close>

definition New :: "i2c_Bus \<Rightarrow> 16 word \<Rightarrow> (Dev option \<times> error option) \<times> i2c_Bus" where
  "New i addr =
     (let d = \<lparr>conn = \<lparr>Bus = i, Addr = addr\<rparr>, lowPins = 0xff, highPins = 0xff\<rparr>
      in case updateState d of
           (Some err, d') \<Rightarrow> ((None, Some err), Bus (conn d'))
         | (None, d') \<Rightarrow> ((Some d', None), Bus (conn d')))"

definition Halt :: "Dev \<Rightarrow> error option \<times> Dev" where
  "Halt d = (None, d)"

definition WriteOutput :: "Dev \<Rightarrow> int \<Rightarrow> bool \<Rightarrow> error option \<times> Dev" where
  "WriteOutput d index state =
     (if index \<ge> 0 \<and> index < 8 then
        updateState (d\<lparr>lowPins := setBit (lowPins d) index state\<rparr>)
      else if index \<ge> 8 \<and> index < 16 then
        updateState (d\<lparr>highPins := setBit (highPins d) (index - 8) state\<rparr>)
      else (Some (RangeError ''PCF8575.WriteOutput'' index), d))"

definition ReadOutput :: "Dev \<Rightarrow> int \<Rightarrow> (bool \<times> error option) \<times> Dev" where
  "ReadOutput d index =
     (if index \<ge> 0 \<and> index < 8 then ((getBit (lowPins d) index, None), d)
      else if index \<ge> 8 \<and> index < 16 then ((getBit (highPins d) (index - 8), None), d)
      else ((False, Some (RangeError ''PCF8575.ReadOutput'' index)), d))"

text \<open>
  \<open>s\<close> is the two-byte buffer of \<open>readState\<close>, so \<open>s ! 0\<close> and \<open>s ! 1\<close> are always
  within it (lemma \<open>readState_length\<close> below).
\<close>

definition ReadInput :: "Dev \<Rightarrow> int \<Rightarrow> (bool \<times> error option) \<times> Dev" where
  "ReadInput d index =
     (case readState d of
        ((s, Some err), d') \<Rightarrow> ((False, Some err), d')
      | ((s, None), d') \<Rightarrow>
          (if index \<ge> 0 \<and> index < 8 then ((getBit (s ! 0) index, None), d')
           else if index \<ge> 8 \<and> index < 16 then ((getBit (s ! 1) (index - 8), None), d')
           else ((False, Some (RangeError ''PCF8575.ReadInput'' index)), d')))"

subsection \<open>Observations used by the properties\<close>

text \<open>The history of the bus a handle talks to.\<close>

definition history :: "Dev \<Rightarrow> bus_log" where
  "history d = issued (Bus (conn d))"

text \<open>The write and the read transaction of the wire protocol, at the handle's address.\<close>

definition write_txn :: "Dev \<Rightarrow> byte list \<Rightarrow> transaction" where
  "write_txn d payload = \<lparr>taddr = Addr (conn d), written = payload, rlen = 0\<rparr>"

definition read_txn :: "Dev \<Rightarrow> transaction" where
  "read_txn d = \<lparr>taddr = Addr (conn d), written = [], rlen = 2\<rparr>"

text \<open>What the bus answers when the handle issues transaction \<open>t\<close> next.\<close>

definition answer :: "Dev \<Rightarrow> transaction \<Rightarrow> bus_error option \<times> byte list" where
  "answer d t = respond (Bus (conn d)) (history d) t"

text \<open>The handle after one more transaction with outcome \<open>e\<close> has been logged on its bus.\<close>

definition logged :: "Dev \<Rightarrow> transaction \<Rightarrow> bus_error option \<Rightarrow> Dev" where
  "logged d t e =
     d\<lparr>conn := (conn d)\<lparr>Bus := (Bus (conn d))\<lparr>issued := issued (Bus (conn d)) @ [(t, e)]\<rparr>\<rparr>\<rparr>"

subsection \<open>Example buses\<close>

text \<open>
  A bus that accepts every write and answers every read with two zero bytes, with an
  empty history, and a handle on it at address 0x20 with all latches high.
\<close>

definition idle_bus :: i2c_Bus where
  "idle_bus = \<lparr>respond = (\<lambda>h t. (None, [0, 0])), issued = []\<rparr>"

definition idle_dev :: Dev where
  "idle_dev = \<lparr>conn = \<lparr>Bus = idle_bus, Addr = 0x20\<rparr>, lowPins = 0xff, highPins = 0xff\<rparr>"

text \<open>
  A bus that plays a script: it answers the \<open>n\<close>-th transaction of its history with the
  \<open>n\<close>-th entry of the script, and accepts everything (delivering no bytes) once the
  script is used up. \<open>handle_on\<close> is a handle at address 0x20 with all latches high on
  a given bus.
\<close>

definition scripted_bus :: "(bus_error option \<times> byte list) list \<Rightarrow> i2c_Bus" where
  "scripted_bus script =
     \<lparr>respond = (\<lambda>h t. if length h < length script then script ! length h else (None, [])),
      issued = []\<rparr>"

definition handle_on :: "i2c_Bus \<Rightarrow> Dev" where
  "handle_on b = \<lparr>conn = \<lparr>Bus = b, Addr = 0x20\<rparr>, lowPins = 0xff, highPins = 0xff\<rparr>"

text \<open>
  A handle on a bus whose first read delivers [0x01, 0x80] and whose second read
  delivers [0x00, 0x00]; and a bus that accepts its first transaction and rejects its
  second, with the handle \<open>New\<close> returns on it.
\<close>

definition two_reads :: Dev where
  "two_reads = handle_on (scripted_bus [(None, [0x01, 0x80]), (None, [0x00, 0x00])])"

definition flaky_bus :: i2c_Bus where
  "flaky_bus = scripted_bus [(None, []), (Some (BusFailure ''nack''), [])]"

definition flaky_dev :: Dev where
  "flaky_dev =
     \<lparr>conn = \<lparr>Bus = flaky_bus\<lparr>issued :=
                       [(\<lparr>taddr = 0x20, written = [0xFF, 0xFF], rlen = 0\<rparr>, None)]\<rparr>,
              Addr = 0x20\<rparr>,
      lowPins = 0xFF, highPins = 0xFF\<rparr>"

text \<open>
  A bus that accepts its first and third transaction and rejects its second and fourth,
  with the handle \<open>New\<close> returns on it.
\<close>

definition relapsing_bus :: i2c_Bus where
  "relapsing_bus =
     scripted_bus [(None, []), (Some (BusFailure ''nack''), []), (None, []),
                   (Some (BusFailure ''nack''), [])]"

definition relapsing_dev :: Dev where
  "relapsing_dev =
     \<lparr>conn = \<lparr>Bus = relapsing_bus\<lparr>issued :=
                       [(\<lparr>taddr = 0x20, written = [0xFF, 0xFF], rlen = 0\<rparr>, None)]\<rparr>,
              Addr = 0x20\<rparr>,
      lowPins = 0xFF, highPins = 0xFF\<rparr>"

subsection \<open>Sequences of calls\<close>

text \<open>
  A caller's use of a handle over time: any sequence of the three pin operations, each
  applied to the handle the previous one left.
\<close>

datatype call = CallWriteOutput int bool | CallReadOutput int | CallReadInput int

fun step :: "Dev \<Rightarrow> call \<Rightarrow> Dev" where
  "step d (CallWriteOutput index state) = snd (WriteOutput d index state)"
| "step d (CallReadOutput index) = snd (ReadOutput d index)"
| "step d (CallReadInput index) = snd (ReadInput d index)"

definition run :: "Dev \<Rightarrow> call list \<Rightarrow> Dev" where
  "run d calls = foldl step d calls"

text \<open>
  The write transactions in the history of a handle's bus that went to the handle's
  address (a write sends at least one byte), the payload and outcome of the most recent
  of them, and the payload of the most recent one that succeeded.
\<close>

definition is_write :: "16 word \<Rightarrow> transaction \<times> bus_error option \<Rightarrow> bool" where
  "is_write a x = (taddr (fst x) = a \<and> written (fst x) \<noteq> [])"

definition succeeded :: "transaction \<times> bus_error option \<Rightarrow> bool" where
  "succeeded x = (snd x = None)"

definition last_opt :: "'a list \<Rightarrow> 'a option" where
  "last_opt xs = (if xs = [] then None else Some (last xs))"

definition last_write :: "Dev \<Rightarrow> (transaction \<times> bus_error option) option" where
  "last_write d = last_opt (filter (is_write (Addr (conn d))) (history d))"

definition last_written :: "Dev \<Rightarrow> byte list option" where
  "last_written d =
     map_option (\<lambda>x. written (fst x))
       (last_opt (filter succeeded (filter (is_write (Addr (conn d))) (history d))))"

text \<open>
  The latch bytes are the payload of the most recent write transaction issued to the
  handle's address.
\<close>

definition latches_last_issued :: "Dev \<Rightarrow> bool" where
  "latches_last_issued d =
     (map_option (\<lambda>x. written (fst x)) (last_write d) = Some [lowPins d, highPins d])"

section \<open>Basic facts\<close>

lemma readState_length: "length (fst (fst (readState d))) = 2"
  by (auto simp: readState_def Tx_def Bus_Tx_def Let_def split: prod.splits)

lemma updateState_eq:
  "updateState d =
     (map_option BusError (fst (answer d (write_txn d [lowPins d, highPins d]))),
      logged d (write_txn d [lowPins d, highPins d])
        (fst (answer d (write_txn d [lowPins d, highPins d]))))"
  by (simp add: updateState_def Tx_def Bus_Tx_def Let_def case_prod_beta answer_def
      write_txn_def history_def logged_def)

lemma readState_eq:
  "readState d =
     ((take 2 (snd (answer d (read_txn d))) @ drop (length (snd (answer d (read_txn d)))) [0, 0],
       map_option BusError (fst (answer d (read_txn d)))),
      logged d (read_txn d) (fst (answer d (read_txn d))))"
  by (simp add: readState_def Tx_def Bus_Tx_def Let_def case_prod_beta answer_def
      read_txn_def history_def logged_def eval_nat_numeral)

lemma logged_simps:
  "lowPins (logged d t e) = lowPins d"
  "highPins (logged d t e) = highPins d"
  "history (logged d t e) = history d @ [(t, e)]"
  "Addr (conn (logged d t e)) = Addr (conn d)"
  by (simp_all add: logged_def history_def)

lemma ReadInput_history:
  "history (snd (ReadInput d index)) = history d @ [(read_txn d, fst (answer d (read_txn d)))]"
  by (simp add: ReadInput_def readState_eq logged_simps split: option.splits)

lemma ReadInput_latches:
  "lowPins (snd (ReadInput d index)) = lowPins d"
  "highPins (snd (ReadInput d index)) = highPins d"
  by (simp_all add: ReadInput_def readState_eq logged_simps split: option.splits)

section \<open>Range checks\<close>

lemma range_error_before_io:
  "index < 0 \<or> 15 < index \<Longrightarrow>
     WriteOutput d index state = (Some (RangeError ''PCF8575.WriteOutput'' index), d) \<and>
     ReadOutput d index = ((False, Some (RangeError ''PCF8575.ReadOutput'' index)), d)"
  by (auto simp: WriteOutput_def ReadOutput_def)

text \<open>
  Claim C1: for every index outside 0..15, each of \<open>WriteOutput\<close>, \<open>ReadOutput\<close> and
  \<open>ReadInput\<close> returns a range error, issues no bus transaction and leaves the latch
  bytes as they were. \<open>WriteOutput\<close> and \<open>ReadOutput\<close> do so: they return the handle
  and its bus exactly as they received them (lemma \<open>range_error_before_io\<close>).
  \<open>ReadInput\<close> does not: it calls \<open>readState\<close> before it looks at the index. On a bus
  with an empty history that answers every read with two zero bytes, \<open>ReadInput(16)\<close>
  returns the range error, and one read transaction has been issued.
\<close>

theorem C1_ReadInput_issues_transaction:
  "fst (ReadInput idle_dev 16) = (False, Some (RangeError ''PCF8575.ReadInput'' 16)) \<and>
   history idle_dev = [] \<and>
   history (snd (ReadInput idle_dev 16)) =
     [(\<lparr>taddr = 0x20, written = [], rlen = 2\<rparr>, None)]"
  by (simp add: ReadInput_def readState_def Tx_def Bus_Tx_def history_def idle_dev_def
      idle_bus_def)

section \<open>The payload of a write\<close>

lemma getMask_values:
  "getMask 0 = 1" "getMask 1 = 2" "getMask 2 = 4" "getMask 3 = 8"
  "getMask 4 = 16" "getMask 5 = 32" "getMask 6 = 64" "getMask 7 = 128"
  by (simp_all add: getMask_def)

lemma WriteOutput_high:
  "8 \<le> index \<Longrightarrow> index < 16 \<Longrightarrow>
     WriteOutput d index state =
       updateState (d\<lparr>highPins := setBit (highPins d) (index - 8) state\<rparr>)"
  by (simp add: WriteOutput_def)

lemma WriteOutput_low:
  "0 \<le> index \<Longrightarrow> index < 8 \<Longrightarrow>
     WriteOutput d index state =
       updateState (d\<lparr>lowPins := setBit (lowPins d) index state\<rparr>)"
  by (simp add: WriteOutput_def)

lemma answer_latches [simp]:
  "answer (d\<lparr>lowPins := l\<rparr>) t = answer d t"
  "answer (d\<lparr>highPins := h\<rparr>) t = answer d t"
  by (simp_all add: answer_def history_def)

lemma write_txn_latches [simp]:
  "write_txn (d\<lparr>lowPins := l\<rparr>) p = write_txn d p"
  "write_txn (d\<lparr>highPins := h\<rparr>) p = write_txn d p"
  by (simp_all add: write_txn_def)

lemma history_latches [simp]:
  "history (d\<lparr>lowPins := l\<rparr>) = history d"
  "history (d\<lparr>highPins := h\<rparr>) = history d"
  by (simp_all add: history_def)

text \<open>
  Claim C3, as the specification states it: \<open>WriteOutput(10, false)\<close> with prior latches
  (0xFF, 0xFF) issues exactly one write transaction, with payload [0xFF, 0xFD]. Pin 10
  is bit 2 of the high byte, whose mask is 0x04, so the byte written is 0xFB; 0xFD
  would clear bit 1. On the idle bus the one transaction issued carries [0xFF, 0xFB].
\<close>

theorem C3_payload_is_not_FD:
  "history (snd (WriteOutput idle_dev 10 False)) =
     [(\<lparr>taddr = 0x20, written = [0xFF, 0xFB], rlen = 0\<rparr>, None)] \<and>
   history (snd (WriteOutput idle_dev 10 False)) \<noteq>
     [(\<lparr>taddr = 0x20, written = [0xFF, 0xFD], rlen = 0\<rparr>, None)]"
  by (simp add: WriteOutput_def updateState_def Tx_def Bus_Tx_def history_def idle_dev_def
      idle_bus_def setBit_def getMask_values)

text \<open>
  Claim C3, amended: \<open>WriteOutput(10, false)\<close> with prior latches (0xFF, 0xFF) issues
  exactly one write transaction, whose payload is [0xFF, 0xFB] (bit 2 of the high byte
  cleared).
\<close>

theorem C3_payload:
  "lowPins d = 0xFF \<Longrightarrow> highPins d = 0xFF \<Longrightarrow>
     history (snd (WriteOutput d 10 False)) =
       history d @ [(write_txn d [0xFF, 0xFB], fst (answer d (write_txn d [0xFF, 0xFB])))]"
  by (simp add: WriteOutput_high updateState_eq logged_simps setBit_def getMask_values)

theorem C3_payload_witness:
  "lowPins idle_dev = 0xFF \<and> highPins idle_dev = 0xFF \<and>
   history (snd (WriteOutput idle_dev 10 False)) =
     [(\<lparr>taddr = 0x20, written = [0xFF, 0xFB], rlen = 0\<rparr>, None)]"
proof -
  have l: "lowPins idle_dev = 0xFF" and h: "highPins idle_dev = 0xFF"
    by (simp_all add: idle_dev_def)
  from C3_payload [OF l h] l h show ?thesis
    by (simp add: history_def write_txn_def answer_def idle_dev_def idle_bus_def)
qed

section \<open>Bits of the latch bytes\<close>

lemma getMask_push: "0 \<le> i \<Longrightarrow> i < 8 \<Longrightarrow> getMask i = push_bit (nat i) 1"
  by (simp add: getMask_def unat_eq_nat_uint uint_word_of_int)

lemma getBit_bit: "0 \<le> i \<Longrightarrow> i < 8 \<Longrightarrow> getBit v i = bit v (nat i)"
  by (simp add: getBit_def getMask_push word_greater_zero_iff and_exp_eq_0_iff_not_bit)

lemma bit_setBit:
  "0 \<le> i \<Longrightarrow> i < 8 \<Longrightarrow> bit (setBit v i s) k = (if k = nat i then s else bit v k)"
  using bit_imp_le_length [of v k]
  by (auto simp add: setBit_def getMask_push bit_simps)

lemma getBit_all_ones: "0 \<le> i \<Longrightarrow> i < 8 \<Longrightarrow> getBit 0xFF i"
proof -
  assume "0 \<le> i" "i < 8"
  moreover have "(0xFF :: byte) = - 1"
    by simp
  ultimately show ?thesis
    by (simp only: getBit_bit bit_minus_1_iff) simp
qed

lemma updateState_latches:
  "lowPins (snd (updateState d)) = lowPins d"
  "highPins (snd (updateState d)) = highPins d"
  by (simp_all add: updateState_eq logged_simps)

text \<open>
  What a call of \<open>WriteOutput\<close> with a valid index does, in terms of the handle it
  leaves: one write transaction carrying the latch bytes as they are afterwards, the
  outcome of that transaction as the result, and the addressed bit equal to \<open>state\<close>.
\<close>

lemma WriteOutput_valid:
  assumes "0 \<le> index" "index \<le> 15"
  shows "history (snd (WriteOutput d index state)) =
           history d @
             [(write_txn d [lowPins (snd (WriteOutput d index state)),
                            highPins (snd (WriteOutput d index state))],
               fst (answer d (write_txn d [lowPins (snd (WriteOutput d index state)),
                                           highPins (snd (WriteOutput d index state))])))]"
    and "fst (WriteOutput d index state) =
           map_option BusError
             (fst (answer d (write_txn d [lowPins (snd (WriteOutput d index state)),
                                          highPins (snd (WriteOutput d index state))])))"
    and "ReadOutput (snd (WriteOutput d index state)) index =
           ((state, None), snd (WriteOutput d index state))"
  using assms
  by (cases "index < 8"; simp add: WriteOutput_low WriteOutput_high updateState_eq logged_simps
      ReadOutput_def getBit_bit bit_setBit)+

lemma WriteOutput_other_bits:
  assumes "0 \<le> index" "index \<le> 15" "k < 8"
  shows "int k \<noteq> index \<Longrightarrow> bit (lowPins (snd (WriteOutput d index state))) k = bit (lowPins d) k"
    and "int k + 8 \<noteq> index \<Longrightarrow> bit (highPins (snd (WriteOutput d index state))) k = bit (highPins d) k"
  using assms
  by (cases "index < 8"; auto simp: WriteOutput_low WriteOutput_high updateState_latches bit_setBit)+

section \<open>Latch round trip\<close>

text \<open>
  Claim C4: for every index in 0..15 and every state, if \<open>WriteOutput(index, state)\<close>
  succeeds then \<open>ReadOutput(index)\<close> on the handle it leaves returns \<open>state\<close>, and every
  other bit of the two latch bytes has the value it had before the write. Bit \<open>k\<close> of
  \<open>lowPins\<close> is pin \<open>k\<close> and bit \<open>k\<close> of \<open>highPins\<close> is pin \<open>k + 8\<close>.
\<close>

theorem C4_latch_round_trip:
  "0 \<le> index \<Longrightarrow> index \<le> 15 \<Longrightarrow> WriteOutput d index state = (None, d') \<Longrightarrow>
     ReadOutput d' index = ((state, None), d') \<and>
     (\<forall>k<8. (int k \<noteq> index \<longrightarrow> bit (lowPins d') k = bit (lowPins d) k) \<and>
            (int k + 8 \<noteq> index \<longrightarrow> bit (highPins d') k = bit (highPins d) k))"
proof -
  assume lo: "0 \<le> index" and hi: "index \<le> 15" and w: "WriteOutput d index state = (None, d')"
  show ?thesis
  proof (cases "index < 8")
    case True
    with lo w have d': "d' = snd (updateState (d\<lparr>lowPins := setBit (lowPins d) index state\<rparr>))"
      by (simp add: WriteOutput_low)
    have l: "lowPins d' = setBit (lowPins d) index state" and h: "highPins d' = highPins d"
      by (simp_all add: d' updateState_latches)
    from lo True show ?thesis
      by (auto simp: ReadOutput_def l h getBit_bit bit_setBit)
  next
    case False
    with hi w
    have d': "d' = snd (updateState (d\<lparr>highPins := setBit (highPins d) (index - 8) state\<rparr>))"
      by (simp add: WriteOutput_high)
    have l: "lowPins d' = lowPins d" and h: "highPins d' = setBit (highPins d) (index - 8) state"
      by (simp_all add: d' updateState_latches)
    from hi False show ?thesis
      by (auto simp: ReadOutput_def l h getBit_bit bit_setBit)
  qed
qed

theorem C4_latch_round_trip_witness:
  "(0::int) \<le> 10 \<and> (10::int) \<le> 15 \<and>
   fst (WriteOutput idle_dev 10 False) = None \<and>
   fst (ReadOutput (snd (WriteOutput idle_dev 10 False)) 10) = (False, None)"
proof -
  have lo: "(0::int) \<le> 10" and hi: "(10::int) \<le> 15"
    by simp_all
  have f: "fst (WriteOutput idle_dev 10 False) = None"
    by (simp add: WriteOutput_def updateState_def Tx_def Bus_Tx_def idle_dev_def idle_bus_def)
  then have w: "WriteOutput idle_dev 10 False = (None, snd (WriteOutput idle_dev 10 False))"
    by (simp add: prod_eq_iff)
  from C4_latch_round_trip [OF lo hi w] f show ?thesis
    by simp
qed

section \<open>Construction\<close>

lemma New_eq:
  "New i addr =
     (let t = \<lparr>taddr = addr, written = [0xFF, 0xFF], rlen = 0\<rparr>;
          e = fst (respond i (issued i) t);
          b = i\<lparr>issued := issued i @ [(t, e)]\<rparr>
      in case e of
           Some err \<Rightarrow> ((None, Some (BusError err)), b)
         | None \<Rightarrow>
             ((Some \<lparr>conn = \<lparr>Bus = b, Addr = addr\<rparr>, lowPins = 0xFF, highPins = 0xFF\<rparr>, None),
              b))"
  by (simp add: New_def updateState_eq Let_def answer_def write_txn_def history_def logged_def
      split: option.splits)

text \<open>
  Claim C5: immediately after a successful construction, \<open>ReadOutput(i)\<close> returns true
  for every \<open>i\<close> in 0..15, and exactly one write transaction, with payload [0xFF, 0xFF],
  has been issued on the bus: the history of the bus is the one it had before, followed
  by that transaction, which succeeded.
\<close>

theorem C5_power_on_default:
  "New i addr = ((Some d, None), b) \<Longrightarrow>
     (\<forall>j. 0 \<le> j \<and> j \<le> 15 \<longrightarrow> ReadOutput d j = ((True, None), d)) \<and>
     Bus (conn d) = b \<and>
     issued b = issued i @ [(\<lparr>taddr = addr, written = [0xFF, 0xFF], rlen = 0\<rparr>, None)]"
  by (auto simp: New_eq Let_def ReadOutput_def getBit_all_ones split: option.splits)

theorem C5_power_on_default_witness:
  "fst (New idle_bus 0x20) = (Some (logged idle_dev (write_txn idle_dev [0xFF, 0xFF]) None), None) \<and>
   ReadOutput (logged idle_dev (write_txn idle_dev [0xFF, 0xFF]) None) 15 =
     ((True, None), logged idle_dev (write_txn idle_dev [0xFF, 0xFF]) None) \<and>
   issued (snd (New idle_bus 0x20)) =
     [(\<lparr>taddr = 0x20, written = [0xFF, 0xFF], rlen = 0\<rparr>, None)]"
proof -
  have f: "fst (New idle_bus 0x20) =
      (Some (logged idle_dev (write_txn idle_dev [0xFF, 0xFF]) None), None)"
    by (simp add: New_eq Let_def idle_bus_def idle_dev_def logged_def write_txn_def)
  then have n: "New idle_bus 0x20 =
      ((Some (logged idle_dev (write_txn idle_dev [0xFF, 0xFF]) None), None), snd (New idle_bus 0x20))"
    by (simp add: prod_eq_iff)
  have i: "issued idle_bus = []"
    by (simp add: idle_bus_def)
  from C5_power_on_default [OF n] f i show ?thesis
    by simp
qed

text \<open>
  Claim C7: if the initializing write transaction fails, the constructor returns that bus
  error and no handle.
\<close>

theorem C7_construction_failure:
  "fst (respond i (issued i) \<lparr>taddr = addr, written = [0xFF, 0xFF], rlen = 0\<rparr>) = Some e \<Longrightarrow>
     fst (New i addr) = (None, Some (BusError e))"
  by (simp add: New_eq Let_def)

theorem C7_construction_failure_witness:
  "fst (respond (scripted_bus [(Some (BusFailure ''nack''), [])])
          (issued (scripted_bus [(Some (BusFailure ''nack''), [])]))
          \<lparr>taddr = 0x20, written = [0xFF, 0xFF], rlen = 0\<rparr>) = Some (BusFailure ''nack'') \<and>
   fst (New (scripted_bus [(Some (BusFailure ''nack''), [])]) 0x20) =
     (None, Some (BusError (BusFailure ''nack'')))"
proof -
  have f: "fst (respond (scripted_bus [(Some (BusFailure ''nack''), [])])
          (issued (scripted_bus [(Some (BusFailure ''nack''), [])]))
          \<lparr>taddr = 0x20, written = [0xFF, 0xFF], rlen = 0\<rparr>) = Some (BusFailure ''nack'')"
    by (simp add: scripted_bus_def)
  from C7_construction_failure [OF f] f show ?thesis
    by simp
qed

section \<open>A failed write\<close>

text \<open>
  Claim C8: for every index in 0..15 and every state, if the write transaction inside
  \<open>WriteOutput(index, state)\<close> fails (the transaction the call adds to the history of the
  bus has an error \<open>e\<close> as its outcome), the call returns that error and the latch bit
  for \<open>index\<close> nevertheless holds \<open>state\<close>.
\<close>

theorem C8_no_rollback:
  "0 \<le> index \<Longrightarrow> index \<le> 15 \<Longrightarrow> WriteOutput d index state = (r, d') \<Longrightarrow>
     history d' = history d @ [(t, Some e)] \<Longrightarrow>
     r = Some (BusError e) \<and> ReadOutput d' index = ((state, None), d')"
proof -
  assume v: "0 \<le> index" "index \<le> 15" and w: "WriteOutput d index state = (r, d')"
    and h: "history d' = history d @ [(t, Some e)]"
  from w have r: "r = fst (WriteOutput d index state)" and d': "d' = snd (WriteOutput d index state)"
    by simp_all
  from WriteOutput_valid(1) [OF v, of d state] h
  have "fst (answer d (write_txn d [lowPins d', highPins d'])) = Some e"
    unfolding d' by auto
  with WriteOutput_valid(2,3) [OF v, of d state] show ?thesis
    by (simp add: r d')
qed

theorem C8_no_rollback_witness:
  "(0::int) \<le> 3 \<and> (3::int) \<le> 15 \<and>
   history (snd (WriteOutput (handle_on (scripted_bus [(Some (BusFailure ''nack''), [])])) 3 False)) =
     history (handle_on (scripted_bus [(Some (BusFailure ''nack''), [])])) @
       [(\<lparr>taddr = 0x20, written = [0xF7, 0xFF], rlen = 0\<rparr>, Some (BusFailure ''nack''))] \<and>
   fst (WriteOutput (handle_on (scripted_bus [(Some (BusFailure ''nack''), [])])) 3 False) =
     Some (BusError (BusFailure ''nack'')) \<and>
   fst (ReadOutput
          (snd (WriteOutput (handle_on (scripted_bus [(Some (BusFailure ''nack''), [])])) 3 False)) 3) =
     (False, None)"
proof -
  let ?d = "handle_on (scripted_bus [(Some (BusFailure ''nack''), [])])"
  have lo: "(0::int) \<le> 3" and hi: "(3::int) \<le> 15"
    by simp_all
  have w: "WriteOutput ?d 3 False = (fst (WriteOutput ?d 3 False), snd (WriteOutput ?d 3 False))"
    by simp
  have h: "history (snd (WriteOutput ?d 3 False)) =
      history ?d @ [(\<lparr>taddr = 0x20, written = [0xF7, 0xFF], rlen = 0\<rparr>, Some (BusFailure ''nack''))]"
    by (simp add: WriteOutput_def updateState_def Tx_def Bus_Tx_def history_def handle_on_def
        scripted_bus_def setBit_def getMask_values)
  from C8_no_rollback [OF lo hi w h] h show ?thesis
    by simp
qed

section \<open>Reading\<close>

text \<open>
  Claim C9: \<open>ReadOutput\<close> and \<open>ReadInput\<close> leave both latch bytes unchanged for every
  index, and \<open>ReadOutput\<close> performs no bus transaction: it returns the handle, and with
  it the bus and its history, exactly as it received them.
\<close>

theorem C9_reads_keep_latches:
  "snd (ReadOutput d index) = d \<and>
   history (snd (ReadOutput d index)) = history d \<and>
   lowPins (snd (ReadInput d index)) = lowPins d \<and>
   highPins (snd (ReadInput d index)) = highPins d"
  by (simp add: ReadOutput_def ReadInput_latches)

text \<open>
  Claim C10: \<open>ReadInput\<close> issues its read transaction before it validates the index:
  whatever the index, the call adds exactly the read transaction to the history of the
  bus, and if that transaction fails the call returns the bus error, also for an index
  outside 0..15.
\<close>

theorem C10_bus_error_masks_range_error:
  "history (snd (ReadInput d index)) = history d @ [(read_txn d, fst (answer d (read_txn d)))] \<and>
   (fst (answer d (read_txn d)) = Some e \<longrightarrow>
      fst (ReadInput d index) = (False, Some (BusError e)))"
  by (simp add: ReadInput_history) (simp add: ReadInput_def readState_eq)

theorem C10_bus_error_masks_range_error_witness:
  "fst (answer (handle_on (scripted_bus [(Some (BusFailure ''nack''), [])]))
          (read_txn (handle_on (scripted_bus [(Some (BusFailure ''nack''), [])])))) =
     Some (BusFailure ''nack'') \<and>
   fst (ReadInput (handle_on (scripted_bus [(Some (BusFailure ''nack''), [])])) 16) =
     (False, Some (BusError (BusFailure ''nack''))) \<and>
   history (snd (ReadInput (handle_on (scripted_bus [(Some (BusFailure ''nack''), [])])) 16)) =
     [(\<lparr>taddr = 0x20, written = [], rlen = 2\<rparr>, Some (BusFailure ''nack''))]"
proof -
  let ?d = "handle_on (scripted_bus [(Some (BusFailure ''nack''), [])])"
  have a: "fst (answer ?d (read_txn ?d)) = Some (BusFailure ''nack'')"
    by (simp add: answer_def history_def handle_on_def scripted_bus_def)
  have h: "history ?d = []" and t: "read_txn ?d = \<lparr>taddr = 0x20, written = [], rlen = 2\<rparr>"
    by (simp_all add: history_def read_txn_def handle_on_def scripted_bus_def)
  from C10_bus_error_masks_range_error [of ?d 16 "BusFailure ''nack''"] a h t show ?thesis
    by simp
qed

lemma ReadInput_result:
  "fst (ReadInput d index) =
     (case fst (answer d (read_txn d)) of
        Some e \<Rightarrow> (False, Some (BusError e))
      | None \<Rightarrow>
          (let s = take 2 (snd (answer d (read_txn d))) @
                   drop (length (snd (answer d (read_txn d)))) [0, 0]
           in if 0 \<le> index \<and> index < 8 then (getBit (s ! 0) index, None)
              else if 8 \<le> index \<and> index < 16 then (getBit (s ! 1) (index - 8), None)
              else (False, Some (RangeError ''PCF8575.ReadInput'' index))))"
  by (simp add: ReadInput_def readState_eq Let_def split: option.splits)

lemma ReadInput_fresh:
  "answer d' (read_txn d') = answer d'' (read_txn d'') \<Longrightarrow>
     fst (ReadInput d' index) = fst (ReadInput d'' index)"
  by (simp only: ReadInput_result)

text \<open>
  Claim C6: if the bus read transaction returns the bytes [0x01, 0x80], then
  \<open>ReadInput(0)\<close> returns true, \<open>ReadInput(1)\<close> returns false and \<open>ReadInput(15)\<close>
  returns true; and every \<open>ReadInput\<close> call issues exactly one fresh read transaction,
  with no caching: each call, on any handle and for any index, adds one read transaction
  to the history of the bus, and what it returns is determined by the index and by what
  the bus answers to that very transaction.
\<close>

theorem C6_input_pass_through:
  "answer d (read_txn d) = (None, [0x01, 0x80]) \<Longrightarrow>
     fst (ReadInput d 0) = (True, None) \<and>
     fst (ReadInput d 1) = (False, None) \<and>
     fst (ReadInput d 15) = (True, None) \<and>
     (\<forall>d' index. history (snd (ReadInput d' index)) =
        history d' @ [(read_txn d', fst (answer d' (read_txn d')))]) \<and>
     (\<forall>d' d'' index. answer d' (read_txn d') = answer d'' (read_txn d'') \<longrightarrow>
        fst (ReadInput d' index) = fst (ReadInput d'' index))"
proof -
  assume a: "answer d (read_txn d) = (None, [0x01, 0x80])"
  have r0: "fst (ReadInput d 0) = (True, None)"
    by (simp add: ReadInput_result a getBit_def getMask_values)
  have r1: "fst (ReadInput d 1) = (False, None)"
    by (simp add: ReadInput_result a getBit_def getMask_values)
  have r15: "fst (ReadInput d 15) = (True, None)"
    by (simp add: ReadInput_result a getBit_def getMask_values)
  have h: "\<forall>d' index. history (snd (ReadInput d' index)) =
        history d' @ [(read_txn d', fst (answer d' (read_txn d')))]"
    by (intro allI) (rule ReadInput_history)
  have f: "\<forall>d' d'' index. answer d' (read_txn d') = answer d'' (read_txn d'') \<longrightarrow>
        fst (ReadInput d' index) = fst (ReadInput d'' index)"
    by (intro allI impI) (rule ReadInput_fresh)
  show ?thesis
    by (intro conjI; fact)
qed

text \<open>
  An example with two reads on a bus whose port changes between them: the second call
  returns the new level of pin 0, and the history holds two read transactions.
\<close>

theorem C6_input_pass_through_witness:
  "answer two_reads (read_txn two_reads) = (None, [0x01, 0x80]) \<and>
   fst (ReadInput two_reads 0) = (True, None) \<and>
   fst (ReadInput two_reads 1) = (False, None) \<and>
   fst (ReadInput two_reads 15) = (True, None) \<and>
   fst (ReadInput (snd (ReadInput two_reads 0)) 0) = (False, None) \<and>
   history (snd (ReadInput (snd (ReadInput two_reads 0)) 0)) =
     [(\<lparr>taddr = 0x20, written = [], rlen = 2\<rparr>, None),
      (\<lparr>taddr = 0x20, written = [], rlen = 2\<rparr>, None)]"
proof -
  have a: "answer two_reads (read_txn two_reads) = (None, [0x01, 0x80])"
    by (simp add: answer_def history_def two_reads_def handle_on_def scripted_bus_def)
  have s: "fst (ReadInput (snd (ReadInput two_reads 0)) 0) = (False, None)"
    "history (snd (ReadInput (snd (ReadInput two_reads 0)) 0)) =
     [(\<lparr>taddr = 0x20, written = [], rlen = 2\<rparr>, None),
      (\<lparr>taddr = 0x20, written = [], rlen = 2\<rparr>, None)]"
    by (simp_all add: ReadInput_def readState_def Tx_def Bus_Tx_def history_def two_reads_def
        handle_on_def scripted_bus_def getBit_def getMask_values)
  note c = C6_input_pass_through [OF a]
  have r0: "fst (ReadInput two_reads 0) = (True, None)"
    by (rule c [THEN conjunct1])
  have r1: "fst (ReadInput two_reads 1) = (False, None)"
    by (rule c [THEN conjunct2, THEN conjunct1])
  have r15: "fst (ReadInput two_reads 15) = (True, None)"
    by (rule c [THEN conjunct2, THEN conjunct2, THEN conjunct1])
  from a r0 r1 r15 s show ?thesis
    by simp
qed

section \<open>The latches and the last write\<close>

lemma last_opt_snoc [simp]: "last_opt (xs @ [x]) = Some x"
  by (simp add: last_opt_def)

lemma last_opt_Some: "last_opt xs = Some x \<Longrightarrow> \<exists>ys. xs = ys @ [x]"
  by (cases xs rule: rev_cases) (simp_all add: last_opt_def)

lemma is_write_write_txn: "is_write (Addr (conn d)) (write_txn d [l, h], e)"
  by (simp add: is_write_def write_txn_def)

lemma not_is_write_read_txn: "\<not> is_write a (read_txn d, e)"
  by (simp add: is_write_def read_txn_def)

lemma WriteOutput_Addr: "Addr (conn (snd (WriteOutput d index state))) = Addr (conn d)"
  by (simp add: WriteOutput_def updateState_eq logged_simps)

lemma ReadInput_Addr: "Addr (conn (snd (ReadInput d index))) = Addr (conn d)"
  by (simp add: ReadInput_def readState_eq logged_simps split: option.splits)

lemma WriteOutput_invalid: "index < 0 \<or> 15 < index \<Longrightarrow> snd (WriteOutput d index state) = d"
  by (auto simp: WriteOutput_def)

lemma last_write_WriteOutput:
  assumes "0 \<le> index" "index \<le> 15"
  shows "map_option (\<lambda>x. written (fst x)) (last_write (snd (WriteOutput d index state))) =
           Some [lowPins (snd (WriteOutput d index state)), highPins (snd (WriteOutput d index state))]"
  by (simp add: last_write_def WriteOutput_Addr WriteOutput_valid(1) [OF assms]
      is_write_write_txn) (simp add: write_txn_def)

lemma last_write_ReadInput: "last_write (snd (ReadInput d index)) = last_write d"
  by (simp add: last_write_def ReadInput_Addr ReadInput_history not_is_write_read_txn)


lemma inv_step: "latches_last_issued d \<Longrightarrow> latches_last_issued (step d c)"
proof (cases c)
  case (CallWriteOutput index state)
  assume i: "latches_last_issued d"
  show ?thesis
  proof (cases "0 \<le> index \<and> index \<le> 15")
    case True
    then show ?thesis
      by (simp add: CallWriteOutput latches_last_issued_def last_write_WriteOutput)
  next
    case False
    then have "snd (WriteOutput d index state) = d"
      by (intro WriteOutput_invalid) auto
    with i show ?thesis
      by (simp add: CallWriteOutput)
  qed
next
  case (CallReadOutput index)
  assume "latches_last_issued d"
  then show ?thesis
    by (simp add: CallReadOutput ReadOutput_def)
next
  case (CallReadInput index)
  assume "latches_last_issued d"
  then show ?thesis
    by (simp add: CallReadInput latches_last_issued_def last_write_ReadInput ReadInput_latches)
qed

lemma inv_run: "latches_last_issued d \<Longrightarrow> latches_last_issued (run d calls)"
  by (induction calls rule: rev_induct) (simp_all add: run_def inv_step)

lemma inv_New: "New i addr = ((Some d, None), b) \<Longrightarrow> latches_last_issued d"
  by (auto simp: New_eq Let_def latches_last_issued_def last_write_def history_def is_write_def
      split: option.splits)

lemma last_written_of_last_write:
  "last_write d = Some x \<Longrightarrow> snd x = None \<Longrightarrow> last_written d = Some (written (fst x))"
proof -
  assume "last_write d = Some x" and ok: "snd x = None"
  then obtain ys where "filter (is_write (Addr (conn d))) (history d) = ys @ [x]"
    by (auto simp: last_write_def dest: last_opt_Some)
  then have "filter succeeded (filter (is_write (Addr (conn d))) (history d)) =
      filter succeeded ys @ [x]"
    using ok by (simp only: filter_append) (simp add: succeeded_def)
  then show ?thesis
    by (simp only: last_written_def last_opt_snoc) simp
qed

text \<open>
  Claim C2, as the specification states it (invariant I1): at every point the latch
  bytes equal the last 2-byte payload successfully written to the device, and
  \<open>WriteOutput\<close> updates them only after a successful write transaction. The source
  sets the latch bit first and then calls \<open>updateState\<close>, whose error it returns without
  restoring the bit. On a bus that accepts the initializing write and rejects the next
  one, \<open>WriteOutput(0, false)\<close> fails, the last payload successfully written is still
  [0xFF, 0xFF], and the latch bytes are [0xFE, 0xFF].
\<close>

theorem C2_failed_write_changes_latches:
  "fst (New flaky_bus 0x20) = (Some flaky_dev, None) \<and>
   [lowPins flaky_dev, highPins flaky_dev] = [0xFF, 0xFF] \<and>
   fst (WriteOutput flaky_dev 0 False) = Some (BusError (BusFailure ''nack'')) \<and>
   last_written (snd (WriteOutput flaky_dev 0 False)) = Some [0xFF, 0xFF] \<and>
   [lowPins (snd (WriteOutput flaky_dev 0 False)), highPins (snd (WriteOutput flaky_dev 0 False))] =
     [0xFE, 0xFF]"
  by (simp add: New_eq Let_def flaky_dev_def flaky_bus_def scripted_bus_def WriteOutput_def
      updateState_def Tx_def Bus_Tx_def last_written_def history_def is_write_def succeeded_def
      last_opt_def setBit_def getMask_values)

text \<open>
  Claim C2, amended: at every point after a successful construction, whatever calls of
  \<open>WriteOutput\<close>, \<open>ReadOutput\<close> and \<open>ReadInput\<close> have been made, the latch bytes equal
  the payload of the most recent write transaction issued to the device, whether or not
  it succeeded, and so they equal the last payload successfully written whenever that
  most recent write transaction succeeded. \<open>WriteOutput\<close> with an index in 0..15
  updates the latch before the transaction, not after a successful one: it sets the
  addressed bit to \<open>state\<close> and leaves every other bit, issues exactly one write
  transaction whose payload is the updated latch bytes, returns the outcome of that
  transaction, and keeps the updated bit also when the transaction failed.
\<close>

theorem C2_latches_follow_last_write:
  "New i addr = ((Some d0, None), b) \<Longrightarrow> d = run d0 calls \<Longrightarrow>
     map_option (\<lambda>x. written (fst x)) (last_write d) = Some [lowPins d, highPins d] \<and>
     (map_option snd (last_write d) = Some None \<longrightarrow>
        last_written d = Some [lowPins d, highPins d]) \<and>
     (\<forall>index state r d'.
        0 \<le> index \<and> index \<le> 15 \<and> WriteOutput d index state = (r, d') \<longrightarrow>
          (\<exists>e. history d' = history d @ [(write_txn d [lowPins d', highPins d'], e)] \<and>
               r = map_option BusError e) \<and>
          ReadOutput d' index = ((state, None), d') \<and>
          (\<forall>k<8. (int k \<noteq> index \<longrightarrow> bit (lowPins d') k = bit (lowPins d) k) \<and>
                 (int k + 8 \<noteq> index \<longrightarrow> bit (highPins d') k = bit (highPins d) k)))"
proof -
  assume n: "New i addr = ((Some d0, None), b)" and d: "d = run d0 calls"
  from n have "latches_last_issued d"
    unfolding d by (intro inv_run inv_New)
  then have l: "map_option (\<lambda>x. written (fst x)) (last_write d) = Some [lowPins d, highPins d]"
    by (simp add: latches_last_issued_def)
  have s: "last_written d = Some [lowPins d, highPins d]"
    if "map_option snd (last_write d) = Some None"
  proof -
    from that obtain x where x: "last_write d = Some x" and ok: "snd x = None"
      by auto
    from l x have "written (fst x) = [lowPins d, highPins d]"
      by simp
    with last_written_of_last_write [OF x ok] show ?thesis
      by simp
  qed
  have w: "(\<exists>e. history d' = history d @ [(write_txn d [lowPins d', highPins d'], e)] \<and>
               r = map_option BusError e) \<and>
          ReadOutput d' index = ((state, None), d') \<and>
          (\<forall>k<8. (int k \<noteq> index \<longrightarrow> bit (lowPins d') k = bit (lowPins d) k) \<and>
                 (int k + 8 \<noteq> index \<longrightarrow> bit (highPins d') k = bit (highPins d) k))"
    if v: "0 \<le> index \<and> index \<le> 15 \<and> WriteOutput d index state = (r, d')"
    for index state r d'
  proof -
    from v have lo: "0 \<le> index" and hi: "index \<le> 15"
      and r: "r = fst (WriteOutput d index state)" and d': "d' = snd (WriteOutput d index state)"
      by simp_all
    have "\<exists>e. history d' = history d @ [(write_txn d [lowPins d', highPins d'], e)] \<and>
               r = map_option BusError e"
      unfolding r d' using WriteOutput_valid(1,2) [OF lo hi, of d state] by blast
    moreover have "ReadOutput d' index = ((state, None), d')"
      unfolding d' by (rule WriteOutput_valid(3) [OF lo hi])
    moreover have "\<forall>k<8. (int k \<noteq> index \<longrightarrow> bit (lowPins d') k = bit (lowPins d) k) \<and>
                 (int k + 8 \<noteq> index \<longrightarrow> bit (highPins d') k = bit (highPins d) k)"
      unfolding d' using WriteOutput_other_bits [OF lo hi] by blast
    ultimately show ?thesis
      by (intro conjI)
  qed
  have s': "map_option snd (last_write d) = Some None \<longrightarrow>
        last_written d = Some [lowPins d, highPins d]"
    by (intro impI) (rule s)
  have w': "\<forall>index state r d'.
        0 \<le> index \<and> index \<le> 15 \<and> WriteOutput d index state = (r, d') \<longrightarrow>
          (\<exists>e. history d' = history d @ [(write_txn d [lowPins d', highPins d'], e)] \<and>
               r = map_option BusError e) \<and>
          ReadOutput d' index = ((state, None), d') \<and>
          (\<forall>k<8. (int k \<noteq> index \<longrightarrow> bit (lowPins d') k = bit (lowPins d) k) \<and>
                 (int k + 8 \<noteq> index \<longrightarrow> bit (highPins d') k = bit (highPins d) k))"
    by (intro allI impI) (rule w)
  show ?thesis
    by (intro conjI; fact)
qed

theorem C2_latches_follow_last_write_witness:
  "fst (New relapsing_bus 0x20) = (Some relapsing_dev, None) \<and>
   fst (WriteOutput relapsing_dev 0 False) = Some (BusError (BusFailure ''nack'')) \<and>
   [lowPins (run relapsing_dev [CallWriteOutput 0 False, CallWriteOutput 9 False]),
    highPins (run relapsing_dev [CallWriteOutput 0 False, CallWriteOutput 9 False])] =
     [0xFE, 0xFD] \<and>
   map_option snd (last_write (run relapsing_dev [CallWriteOutput 0 False, CallWriteOutput 9 False])) =
     Some None \<and>
   last_written (run relapsing_dev [CallWriteOutput 0 False, CallWriteOutput 9 False]) =
     Some [0xFE, 0xFD] \<and>
   (0::int) \<le> 3 \<and> (3::int) \<le> 15 \<and>
   fst (WriteOutput (run relapsing_dev [CallWriteOutput 0 False, CallWriteOutput 9 False]) 3 False) =
     Some (BusError (BusFailure ''nack'')) \<and>
   fst (ReadOutput
          (snd (WriteOutput (run relapsing_dev [CallWriteOutput 0 False, CallWriteOutput 9 False])
                  3 False)) 3) = (False, None) \<and>
   last (history
           (snd (WriteOutput (run relapsing_dev [CallWriteOutput 0 False, CallWriteOutput 9 False])
                   3 False))) =
     (\<lparr>taddr = 0x20, written = [0xF6, 0xFD], rlen = 0\<rparr>, Some (BusFailure ''nack''))"
proof -
  let ?d = "run relapsing_dev [CallWriteOutput 0 False, CallWriteOutput 9 False]"
  have f: "fst (New relapsing_bus 0x20) = (Some relapsing_dev, None)"
    by (simp add: New_eq Let_def relapsing_dev_def relapsing_bus_def scripted_bus_def)
  then have n: "New relapsing_bus 0x20 = ((Some relapsing_dev, None), snd (New relapsing_bus 0x20))"
    by (simp add: prod_eq_iff)
  have w0: "fst (WriteOutput relapsing_dev 0 False) = Some (BusError (BusFailure ''nack''))"
    by (simp add: WriteOutput_def updateState_def Tx_def Bus_Tx_def relapsing_dev_def
        relapsing_bus_def scripted_bus_def)
  have d: "?d =
      \<lparr>conn = \<lparr>Bus = relapsing_bus\<lparr>issued :=
                  [(\<lparr>taddr = 0x20, written = [0xFF, 0xFF], rlen = 0\<rparr>, None),
                   (\<lparr>taddr = 0x20, written = [0xFE, 0xFF], rlen = 0\<rparr>, Some (BusFailure ''nack'')),
                   (\<lparr>taddr = 0x20, written = [0xFE, 0xFD], rlen = 0\<rparr>, None)]\<rparr>,
               Addr = 0x20\<rparr>,
       lowPins = 0xFE, highPins = 0xFD\<rparr>"
    by (simp add: run_def WriteOutput_def updateState_def Tx_def Bus_Tx_def relapsing_dev_def
        relapsing_bus_def scripted_bus_def setBit_def getMask_values)
  have l: "[lowPins ?d, highPins ?d] = [0xFE, 0xFD]"
    by (simp add: d)
  have ok: "map_option snd (last_write ?d) = Some None"
    by (simp add: d last_write_def history_def is_write_def last_opt_def)
  have w3: "fst (WriteOutput ?d 3 False) = Some (BusError (BusFailure ''nack''))"
    "last (history (snd (WriteOutput ?d 3 False))) =
       (\<lparr>taddr = 0x20, written = [0xF6, 0xFD], rlen = 0\<rparr>, Some (BusFailure ''nack''))"
    by (simp_all add: d WriteOutput_def updateState_def Tx_def Bus_Tx_def history_def
        relapsing_bus_def scripted_bus_def setBit_def getMask_values)
  have p: "0 \<le> (3::int) \<and> (3::int) \<le> 15 \<and>
      WriteOutput ?d 3 False = (fst (WriteOutput ?d 3 False), snd (WriteOutput ?d 3 False))"
    by simp
  note c = C2_latches_follow_last_write [OF n refl, of "[CallWriteOutput 0 False, CallWriteOutput 9 False]"]
  from c ok have s: "last_written ?d = Some [lowPins ?d, highPins ?d]"
    by (elim conjE impE) assumption+
  from c [THEN conjunct2, THEN conjunct2, THEN spec, THEN spec, THEN spec, THEN spec, THEN mp, OF p]
  have r: "ReadOutput (snd (WriteOutput ?d 3 False)) 3 = ((False, None), snd (WriteOutput ?d 3 False))"
    by (elim conjE) assumption
  from r have r': "fst (ReadOutput (snd (WriteOutput ?d 3 False)) 3) = (False, None)"
    by simp
  from s l have s': "last_written ?d = Some [0xFE, 0xFD]"
    by simp
  from f w0 l ok s' w3 r' show ?thesis
    by simp
qed

end
